theory Spec2Isabelle
  imports Complex_Main "HOL-Library.Word" "HOL-Library.AList" "HOL-Library.Sublist"
begin

unbundle bit_operations_syntax

section \<open>Python values\<close>

text \<open>
  A Python \<open>str\<close> is a \<^typ>\<open>string\<close> (its length counts characters, as \<open>len\<close> does);
  a Python \<open>bytes\<close> value is a list of 8-bit words. The two are kept apart, as Python 3
  keeps them apart: \<open>str.encode()\<close> and \<open>bytes.decode()\<close> go between them.
\<close>

type_synonym byte = "8 word"
type_synonym bytes = "byte list"

text \<open>A bytes literal \<open>b"..."\<close> of ASCII characters.\<close>

definition bytes_of :: "string \<Rightarrow> bytes" where
  "bytes_of s = map of_char s"

text \<open>
  Exceptions are values. Only the classes that the handlers of the source tell apart are
  kept: \<open>ValueError\<close> (which \<open>binascii.Error\<close> and \<open>json.JSONDecodeError\<close> subclass),
  \<open>FileNotFoundError\<close>, and a plain \<open>Exception\<close> (also standing for any other library
  error). Each carries its message, \<open>str(e)\<close>. The web framework's \<open>HTTPException\<close>
  (status code, detail) is a type of its own: only \<open>main.py\<close> raises it.
\<close>

datatype exn =
    ValueError string
  | FileNotFoundError string
  | Exception string

fun str_exn :: "exn \<Rightarrow> string" where
  "str_exn (ValueError m) = m"
| "str_exn (FileNotFoundError m) = m"
| "str_exn (Exception m) = m"

datatype http_exception = HTTPException nat string

text \<open>Python's \<open>sub in s\<close> on strings.\<close>

definition str_contains :: "string \<Rightarrow> string \<Rightarrow> bool" where
  "str_contains sub s = sublist sub s"

text \<open>Python's \<open>s.replace(old, new)\<close> for a non-empty \<open>old\<close>: every occurrence, left to
  right, without overlap.\<close>

function str_replace :: "string \<Rightarrow> string \<Rightarrow> string \<Rightarrow> string" where
  "str_replace old new s =
     (if s = [] \<or> old = [] then s
      else if prefix old s then new @ str_replace old new (drop (length old) s)
      else hd s # str_replace old new (tl s))"
  by pat_completeness auto
termination
  by (relation "measure (\<lambda>(old, new, s). length s)") auto

declare str_replace.simps [simp del]

section \<open>The libraries the code calls\<close>

text \<open>
  \<open>cryptography\<close>, \<open>base64\<close> and the codec of \<open>str\<close> are not code of this repository:
  they are parameters of the model, one record of functions.
  \<^item> \<open>str_encode s\<close> is \<open>s.encode()\<close>; \<open>bytes_decode b\<close> is \<open>b.decode()\<close>, \<open>None\<close> when it
    raises \<open>UnicodeDecodeError\<close>.
  \<^item> \<open>b64encode b\<close> is \<open>base64.b64encode(b).decode()\<close> (the output is ASCII, so the
    \<open>decode\<close> cannot raise); \<open>b64decode s\<close> is \<open>base64.b64decode(s)\<close>, \<open>None\<close> when it
    raises \<open>binascii.Error\<close>; \<open>urlsafe_b64encode\<close> is \<open>base64.urlsafe_b64encode\<close>.
  \<^item> \<open>pbkdf2_hmac_sha256 length salt iterations key_material\<close> is
    \<open>PBKDF2HMAC(algorithm=hashes.SHA256(), length=length, salt=salt,
    iterations=iterations).derive(key_material)\<close>.
  \<^item> \<open>fernet_encrypt key r data\<close> is \<open>Fernet(key).encrypt(data)\<close>, where \<open>r\<close> is what the
    call draws from outside the program: the random IV and the clock;
    \<open>fernet_decrypt key token\<close> is \<open>Fernet(key).decrypt(token)\<close>, \<open>None\<close> when it raises
    \<open>InvalidToken\<close>. The key handed to \<open>Fernet\<close> is always the url-safe base64 text of a
    32-byte derived key, so the constructor itself does not raise.
\<close>

record 'r crypto_lib =
  str_encode :: "string \<Rightarrow> bytes"
  bytes_decode :: "bytes \<Rightarrow> string option"
  b64encode :: "bytes \<Rightarrow> string"
  b64decode :: "string \<Rightarrow> bytes option"
  urlsafe_b64encode :: "bytes \<Rightarrow> bytes"
  pbkdf2_hmac_sha256 :: "nat \<Rightarrow> bytes \<Rightarrow> nat \<Rightarrow> bytes \<Rightarrow> bytes"
  fernet_encrypt :: "bytes \<Rightarrow> 'r \<Rightarrow> bytes \<Rightarrow> bytes"
  fernet_decrypt :: "bytes \<Rightarrow> bytes \<Rightarrow> bytes option"

section \<open>The data model\<close>

text \<open>
  The dictionaries of the source have fixed keys, so they are records. A detected field is
  what \<open>detect_pii\<close> builds (\<open>pii_detection.py\<close>), the only producer of the lists that
  reach the encryption.
\<close>

record location =
  loc_page :: int
  loc_bbox :: "int list"
  loc_start :: int
  loc_end :: int

record pii_field =
  pf_type :: string
  pf_value :: string
  pf_original_value :: string
  pf_confidence :: rat
  pf_location :: location
  pf_encrypted :: bool
  pf_detection_method :: string

text \<open>\<open>{**field, "placeholder_id": ..., "encrypted_value": ..., "encrypted": True}\<close>\<close>

record encrypted_field = pii_field +
  ef_placeholder_id :: string
  ef_encrypted_value :: string

text \<open>One value of the \<open>field_mapping\<close> dictionary.\<close>

record field_data =
  fd_original_value :: string
  fd_encrypted_value :: string
  fd_type :: string
  fd_location :: location

text \<open>
  The encryption metadata. \<open>field_mapping\<close> is a Python dictionary: an association list
  in insertion order, written with \<^const>\<open>AList.update\<close> (an existing key keeps its
  place and gets the new value, a new key goes to the end).
\<close>

record encryption_metadata =
  md_encrypted_fields :: "encrypted_field list"
  md_field_mapping :: "(string \<times> field_data) list"
  md_salt :: string
  md_encryption_method :: string

section \<open>The document libraries the code calls\<close>

text \<open>
  \<open>pathlib\<close>, \<open>json\<close>, PyMuPDF (\<open>fitz\<close>) and the web framework are parameters too. A
  file's content is a string; \<open>'pdf\<close> is an open document, \<open>'rect\<close> a hit of a search.
  \<^item> \<open>with_suffix p s\<close> is \<open>str(Path(p).with_suffix(s))\<close>, \<open>path_stem p\<close> is
    \<open>Path(p).stem\<close>, \<open>path_sibling p n\<close> is \<open>str(Path(p).parent / n)\<close>.
  \<^item> \<open>json_dumps\<close> is what \<open>json.dump(metadata, f, indent=2)\<close> writes; \<open>json_loads\<close> is
    \<open>json.load\<close>, \<open>Inl\<close> the message of its \<open>JSONDecodeError\<close>.
  \<^item> \<open>fitz_open c\<close> is \<open>fitz.open(path)\<close> where \<open>c\<close> is the content of the file at the
    path (\<open>None\<close> when there is no file), \<open>Inl\<close> the message of the error it raises.
  \<^item> \<open>page_count\<close> is \<open>len(pdf_document)\<close>; \<open>search_for pdf n s\<close> is
    \<open>pdf.load_page(n).search_for(s)\<close>; \<open>add_redact_annot pdf n inst t\<close> is the three
    calls \<open>add_redact_annot(inst)\<close>, \<open>set_text(t)\<close>, \<open>update()\<close> on page \<open>n\<close>;
    \<open>apply_redactions pdf n\<close> is \<open>page.apply_redactions()\<close>; \<open>pdf_bytes\<close> is what
    \<open>pdf_document.save\<close> writes.
  \<^item> \<open>str_http_exception code detail\<close> is \<open>str(HTTPException(code, detail))\<close>.
\<close>

record ('pdf, 'rect) doc_lib =
  with_suffix :: "string \<Rightarrow> string \<Rightarrow> string"
  path_stem :: "string \<Rightarrow> string"
  path_sibling :: "string \<Rightarrow> string \<Rightarrow> string"
  json_dumps :: "encryption_metadata \<Rightarrow> string"
  json_loads :: "string \<Rightarrow> string + encryption_metadata"
  fitz_open :: "string option \<Rightarrow> string + 'pdf"
  page_count :: "'pdf \<Rightarrow> nat"
  search_for :: "'pdf \<Rightarrow> nat \<Rightarrow> string \<Rightarrow> 'rect list"
  add_redact_annot :: "'pdf \<Rightarrow> nat \<Rightarrow> 'rect \<Rightarrow> string \<Rightarrow> 'pdf"
  apply_redactions :: "'pdf \<Rightarrow> nat \<Rightarrow> 'pdf"
  pdf_bytes :: "'pdf \<Rightarrow> string"
  str_http_exception :: "nat \<Rightarrow> string \<Rightarrow> string"

section \<open>encrypt.py\<close>

subsection \<open>Formatting the placeholder id\<close>

text \<open>\<open>str(n)\<close> for a natural number, and the format \<open>{n:03d}\<close>: decimal, zero-padded to
  at least three digits.\<close>

definition digit_char :: "nat \<Rightarrow> char" where
  "digit_char d = ''0123456789'' ! d"

fun str_nat :: "nat \<Rightarrow> string" where
  "str_nat n = (if n < 10 then [digit_char n] else str_nat (n div 10) @ [digit_char (n mod 10)])"

declare str_nat.simps [simp del]

definition fmt_03d :: "nat \<Rightarrow> string" where
  "fmt_03d n = replicate (3 - length (str_nat n)) (CHR ''0'') @ str_nat n"

subsection \<open>generate_key_from_passkey\<close>

definition generate_key_from_passkey ::
  "'r crypto_lib \<Rightarrow> string \<Rightarrow> bytes option \<Rightarrow> bytes \<times> bytes" where
  "generate_key_from_passkey L passkey salt =
     (let salt' = (case salt of
                     None \<Rightarrow> urlsafe_b64encode L (bytes_of ''piiguardian_salt_2024'')
                   | Some s \<Rightarrow> s);
          key = urlsafe_b64encode L
                  (pbkdf2_hmac_sha256 L 32 salt' 100000 (str_encode L passkey))
      in (key, salt'))"

subsection \<open>encrypt_pii_fields\<close>

text \<open>
  The loop \<open>for i, field in enumerate(pii_fields)\<close>, with its two accumulators. \<open>rnd i\<close>
  is what the \<open>i\<close>-th call of \<open>fernet.encrypt\<close> draws (IV and time).
\<close>

fun encrypt_loop ::
  "'r crypto_lib \<Rightarrow> bytes \<Rightarrow> (nat \<Rightarrow> 'r) \<Rightarrow> nat \<Rightarrow> pii_field list \<Rightarrow>
   encrypted_field list \<times> (string \<times> field_data) list \<Rightarrow>
   encrypted_field list \<times> (string \<times> field_data) list" where
  "encrypt_loop L key rnd i [] acc = acc"
| "encrypt_loop L key rnd i (field # rest) (encrypted_fields, field_mapping) =
     (let placeholder_id = ''ENCRYPTED_FIELD_'' @ fmt_03d (i + 1);
          encrypted_value = fernet_encrypt L key (rnd i) (str_encode L (pf_original_value field));
          encrypted_field =
            \<lparr>pf_type = pf_type field, pf_value = pf_value field,
             pf_original_value = pf_original_value field,
             pf_confidence = pf_confidence field, pf_location = pf_location field,
             pf_encrypted = True, pf_detection_method = pf_detection_method field,
             ef_placeholder_id = placeholder_id,
             ef_encrypted_value = b64encode L encrypted_value\<rparr>
      in encrypt_loop L key rnd (i + 1) rest
           (encrypted_fields @ [encrypted_field],
            AList.update placeholder_id
              \<lparr>fd_original_value = pf_original_value field,
               fd_encrypted_value = ef_encrypted_value encrypted_field,
               fd_type = pf_type field,
               fd_location = pf_location field\<rparr>
              field_mapping))"

text \<open>
  With a typed field list and passkey nothing inside the \<open>try\<close> raises, so the handler
  (\<open>raise Exception("Failed to encrypt PII fields: ...")\<close>) is not a branch of the model.
\<close>

definition encrypt_pii_fields ::
  "'r crypto_lib \<Rightarrow> (nat \<Rightarrow> 'r) \<Rightarrow> pii_field list \<Rightarrow> string \<Rightarrow> encryption_metadata" where
  "encrypt_pii_fields L rnd pii_fields passkey =
     (let (key, salt) = generate_key_from_passkey L passkey None;
          (encrypted_fields, field_mapping) = encrypt_loop L key rnd 0 pii_fields ([], [])
      in \<lparr>md_encrypted_fields = encrypted_fields,
          md_field_mapping = field_mapping,
          md_salt = b64encode L salt,
          md_encryption_method = ''AES-256-Fernet''\<rparr>)"

subsection \<open>decrypt_pii_fields\<close>

text \<open>The body of the inner \<open>try\<close>: decode, decrypt, decode. \<open>None\<close> when any step raises.\<close>

definition decrypt_value :: "'r crypto_lib \<Rightarrow> bytes \<Rightarrow> field_data \<Rightarrow> string option" where
  "decrypt_value L key field_data =
     (case b64decode L (fd_encrypted_value field_data) of
        None \<Rightarrow> None
      | Some encrypted_bytes \<Rightarrow>
          (case fernet_decrypt L key encrypted_bytes of
             None \<Rightarrow> None
           | Some decrypted_bytes \<Rightarrow> bytes_decode L decrypted_bytes))"

text \<open>The loop over \<open>field_mapping.items()\<close>; the inner handler turns any failure into
  the one \<open>ValueError\<close>.\<close>

fun decrypt_loop ::
  "'r crypto_lib \<Rightarrow> bytes \<Rightarrow> (string \<times> field_data) list \<Rightarrow> (string \<times> string) list \<Rightarrow>
   exn + (string \<times> string) list" where
  "decrypt_loop L key [] decrypted_mapping = Inr decrypted_mapping"
| "decrypt_loop L key ((placeholder_id, field_data) # rest) decrypted_mapping =
     (case decrypt_value L key field_data of
        None \<Rightarrow> Inl (ValueError ''Invalid passkey or corrupted data'')
      | Some decrypted_value \<Rightarrow>
          decrypt_loop L key rest (AList.update placeholder_id decrypted_value decrypted_mapping))"

text \<open>The outer handler.\<close>

definition decrypt_handler :: "exn \<Rightarrow> exn" where
  "decrypt_handler e =
     (if str_contains ''Invalid passkey'' (str_exn e)
      then ValueError ''Invalid passkey provided''
      else Exception (''Failed to decrypt PII fields: '' @ str_exn e))"

text \<open>
  \<open>binascii.Error\<close> is a \<open>ValueError\<close>; its message is one of a few fixed texts of
  CPython, none of which contains \<open>Invalid passkey\<close>. The model takes the commonest.
\<close>

definition decrypt_pii_fields ::
  "'r crypto_lib \<Rightarrow> encryption_metadata \<Rightarrow> string \<Rightarrow> exn + (string \<times> string) list" where
  "decrypt_pii_fields L encrypted_metadata passkey =
     (case (case b64decode L (md_salt encrypted_metadata) of
              None \<Rightarrow> Inl (ValueError ''Incorrect padding'')
            | Some salt \<Rightarrow>
                (let (key, _) = generate_key_from_passkey L passkey (Some salt)
                 in decrypt_loop L key (md_field_mapping encrypted_metadata) []))
      of Inl e \<Rightarrow> Inl (decrypt_handler e)
       | Inr decrypted_mapping \<Rightarrow> Inr decrypted_mapping)"

subsection \<open>generate_placeholder_text and validate_passkey_strength\<close>

definition generate_placeholder_text :: "string \<Rightarrow> string \<Rightarrow> string" where
  "generate_placeholder_text placeholder_id pii_type =
     ''['' @ placeholder_id @ '':'' @ pii_type @ '']''"

definition validate_passkey_strength :: "string \<Rightarrow> bool" where
  "validate_passkey_strength passkey = (if length passkey < 8 then False else True)"

section \<open>pdf_utils.py\<close>

type_synonym filesystem = "string \<rightharpoonup> string"

subsection \<open>generate_encrypted_pdf\<close>

text \<open>The body of the loop over the pages: for every encrypted field, every hit of its
  original value gets a redaction annotation carrying the placeholder text; then the
  redactions of the page are applied.\<close>

definition redact_page ::
  "('pdf, 'rect) doc_lib \<Rightarrow> encrypted_field list \<Rightarrow> 'pdf \<Rightarrow> nat \<Rightarrow> 'pdf" where
  "redact_page B encrypted_fields pdf_document page_num =
     apply_redactions B
       (foldl (\<lambda>pdf field.
                 foldl (\<lambda>pdf' inst.
                          add_redact_annot B pdf' page_num inst
                            (generate_placeholder_text (ef_placeholder_id field) (pf_type field)))
                   pdf (search_for B pdf page_num (pf_original_value field)))
          pdf_document encrypted_fields)
       page_num"

text \<open>
  The function returns the path or raises, and writes two files: the redacted document,
  then the metadata beside it. Writing a file does not fail in the model.
\<close>

definition generate_encrypted_pdf ::
  "'r crypto_lib \<Rightarrow> ('pdf, 'rect) doc_lib \<Rightarrow> (nat \<Rightarrow> 'r) \<Rightarrow> filesystem \<Rightarrow>
   string \<Rightarrow> pii_field list \<Rightarrow> string \<Rightarrow> (exn + string) \<times> filesystem" where
  "generate_encrypted_pdf L B rnd fs original_path pii_fields passkey =
     (let encryption_metadata = encrypt_pii_fields L rnd pii_fields passkey
      in case fitz_open B (fs original_path) of
           Inl m \<Rightarrow> (Inl (Exception (''Failed to generate encrypted PDF: '' @ m)), fs)
         | Inr pdf_document \<Rightarrow>
             (let pdf' = foldl (redact_page B (md_encrypted_fields encryption_metadata))
                           pdf_document [0..<page_count B pdf_document];
                  encrypted_filename = ''encrypted_'' @ path_stem B original_path @ ''.pdf'';
                  encrypted_path = path_sibling B original_path encrypted_filename;
                  fs' = fs(encrypted_path \<mapsto> pdf_bytes B pdf');
                  metadata_path = with_suffix B encrypted_path ''.json''
              in (Inr encrypted_path, fs'(metadata_path \<mapsto> json_dumps B encryption_metadata))))"

subsection \<open>generate_decrypted_pdf\<close>

text \<open>The loop over \<open>decrypted_mapping.items()\<close> on one page; the lookup
  \<open>field_mapping[placeholder_id]\<close> raises \<open>KeyError\<close> on a missing key.\<close>

fun restore_items ::
  "('pdf, 'rect) doc_lib \<Rightarrow> (string \<times> field_data) list \<Rightarrow> nat \<Rightarrow> (string \<times> string) list \<Rightarrow>
   'pdf \<Rightarrow> exn + 'pdf" where
  "restore_items B field_mapping page_num [] pdf = Inr pdf"
| "restore_items B field_mapping page_num ((placeholder_id, original_value) # rest) pdf =
     (case map_of field_mapping placeholder_id of
        None \<Rightarrow> Inl (Exception ([CHR 0x27] @ placeholder_id @ [CHR 0x27]))
      | Some field_data \<Rightarrow>
          restore_items B field_mapping page_num rest
            (foldl (\<lambda>pdf' inst. add_redact_annot B pdf' page_num inst original_value)
               pdf
               (search_for B pdf page_num
                  (generate_placeholder_text placeholder_id (fd_type field_data)))))"

fun restore_pages ::
  "('pdf, 'rect) doc_lib \<Rightarrow> (string \<times> field_data) list \<Rightarrow> (string \<times> string) list \<Rightarrow>
   nat list \<Rightarrow> 'pdf \<Rightarrow> exn + 'pdf" where
  "restore_pages B field_mapping decrypted_mapping [] pdf = Inr pdf"
| "restore_pages B field_mapping decrypted_mapping (page_num # pages) pdf =
     (case restore_items B field_mapping page_num decrypted_mapping pdf of
        Inl e \<Rightarrow> Inl e
      | Inr pdf' \<Rightarrow>
          restore_pages B field_mapping decrypted_mapping pages
            (apply_redactions B pdf' page_num))"

text \<open>The two handlers: \<open>except ValueError\<close>, then \<open>except Exception\<close>.\<close>

fun decrypted_pdf_handler :: "exn \<Rightarrow> exn" where
  "decrypted_pdf_handler (ValueError m) =
     (if str_contains ''Invalid passkey'' m then ValueError ''Invalid passkey provided''
      else ValueError m)"
| "decrypted_pdf_handler e = Exception (''Failed to generate decrypted PDF: '' @ str_exn e)"

definition generate_decrypted_pdf ::
  "'r crypto_lib \<Rightarrow> ('pdf, 'rect) doc_lib \<Rightarrow> filesystem \<Rightarrow>
   string \<Rightarrow> pii_field list option \<Rightarrow> string \<Rightarrow> (exn + string) \<times> filesystem" where
  "generate_decrypted_pdf L B fs encrypted_path pii_fields passkey =
     (case
        (let metadata_path = with_suffix B encrypted_path ''.json''
         in case fs metadata_path of
              None \<Rightarrow> (Inl (FileNotFoundError ''Encryption metadata not found''), fs)
            | Some content \<Rightarrow>
                (case json_loads B content of
                   Inl m \<Rightarrow> (Inl (ValueError m), fs)
                 | Inr encryption_metadata \<Rightarrow>
                     (case decrypt_pii_fields L encryption_metadata passkey of
                        Inl e \<Rightarrow> (Inl e, fs)
                      | Inr decrypted_mapping \<Rightarrow>
                          (case fitz_open B (fs encrypted_path) of
                             Inl m \<Rightarrow> (Inl (Exception m), fs)
                           | Inr pdf_document \<Rightarrow>
                               (case restore_pages B (md_field_mapping encryption_metadata)
                                       decrypted_mapping [0..<page_count B pdf_document]
                                       pdf_document of
                                  Inl e \<Rightarrow> (Inl e, fs)
                                | Inr pdf' \<Rightarrow>
                                    (let decrypted_filename =
                                           ''decrypted_'' @
                                           str_replace ''encrypted_'' [] (path_stem B encrypted_path) @
                                           ''.pdf'';
                                         decrypted_path = path_sibling B encrypted_path decrypted_filename
                                     in (Inr decrypted_path,
                                         fs(decrypted_path \<mapsto> pdf_bytes B pdf'))))))))
      of (Inl e, fs') \<Rightarrow> (Inl (decrypted_pdf_handler e), fs')
       | (Inr decrypted_path, fs') \<Rightarrow> (Inr decrypted_path, fs'))"

section \<open>main.py\<close>

record doc_record =
  doc_id :: string
  doc_filename :: string
  doc_original_path :: string
  doc_status :: string
  doc_detected_pii :: "pii_field list option"
  doc_encrypted_path :: "string option"

text \<open>What the endpoints read and write: the in-memory \<open>documents_store\<close> and the files.\<close>

record world =
  documents_store :: "string \<rightharpoonup> doc_record"
  files :: filesystem

record file_response =
  fr_path :: string
  fr_filename :: string
  fr_media_type :: string

text \<open>What a \<open>try\<close> body of an endpoint raises: an \<open>HTTPException\<close> of its own, or an
  exception of the code it calls.\<close>

type_synonym raised = "http_exception + exn"

definition str_raised :: "('pdf, 'rect) doc_lib \<Rightarrow> raised \<Rightarrow> string" where
  "str_raised B e =
     (case e of
        Inl (HTTPException code detail) \<Rightarrow> str_http_exception B code detail
      | Inr e' \<Rightarrow> str_exn e')"

text \<open>Python's truth value of \<open>doc["detected_pii"]\<close> and of \<open>doc["encrypted_path"]\<close>:
  \<open>None\<close> and the empty list or string are false.\<close>

definition truthy :: "'a list option \<Rightarrow> bool" where
  "truthy v = (case v of None \<Rightarrow> False | Some xs \<Rightarrow> xs \<noteq> [])"

subsection \<open>encrypt_document\<close>

definition encrypt_document ::
  "'r crypto_lib \<Rightarrow> ('pdf, 'rect) doc_lib \<Rightarrow> (nat \<Rightarrow> 'r) \<Rightarrow> world \<Rightarrow>
   string \<Rightarrow> string \<Rightarrow> (http_exception + file_response) \<times> world" where
  "encrypt_document L B rnd w document_id passkey =
     (case
        (case documents_store w document_id of
           None \<Rightarrow> (Inl (Inl (HTTPException 404 ''Document not found'')), w)
         | Some doc \<Rightarrow>
             if \<not> truthy (doc_detected_pii doc)
             then (Inl (Inl (HTTPException 400 ''Document must be analyzed first'')), w)
             else if length passkey < 8
             then (Inl (Inl (HTTPException 400 ''Passkey must be at least 8 characters'')), w)
             else
               (case generate_encrypted_pdf L B rnd (files w) (doc_original_path doc)
                       (case doc_detected_pii doc of Some detected \<Rightarrow> detected | None \<Rightarrow> [])
                       passkey of
                  (Inl e, fs') \<Rightarrow> (Inl (Inr e), w\<lparr>files := fs'\<rparr>)
                | (Inr encrypted_path, fs') \<Rightarrow>
                    (Inr \<lparr>fr_path = encrypted_path,
                          fr_filename = ''encrypted_'' @ doc_filename doc,
                          fr_media_type = ''application/pdf''\<rparr>,
                     w\<lparr>files := fs',
                       documents_store := (documents_store w)(document_id \<mapsto>
                         doc\<lparr>doc_encrypted_path := Some encrypted_path,
                             doc_status := ''encrypted''\<rparr>)\<rparr>)))
      of (Inl e, w') \<Rightarrow>
           (Inl (HTTPException 500 (''Encryption failed: '' @ str_raised B e)), w')
       | (Inr response, w') \<Rightarrow> (Inr response, w'))"

subsection \<open>decrypt_document\<close>

text \<open>\<open>except ValueError\<close> first, then \<open>except Exception\<close>; an \<open>HTTPException\<close> raised in
  the body is not a \<open>ValueError\<close>, so the second handler takes it.\<close>

definition decrypt_document_handler :: "('pdf, 'rect) doc_lib \<Rightarrow> raised \<Rightarrow> http_exception" where
  "decrypt_document_handler B e =
     (case e of
        Inr (ValueError m) \<Rightarrow>
          (if str_contains ''Invalid passkey'' m then HTTPException 401 ''Invalid passkey''
           else HTTPException 400 m)
      | _ \<Rightarrow> HTTPException 500 (''Decryption failed: '' @ str_raised B e))"

definition decrypt_document ::
  "'r crypto_lib \<Rightarrow> ('pdf, 'rect) doc_lib \<Rightarrow> world \<Rightarrow>
   string \<Rightarrow> string \<Rightarrow> (http_exception + file_response) \<times> world" where
  "decrypt_document L B w document_id passkey =
     (case
        (case documents_store w document_id of
           None \<Rightarrow> (Inl (Inl (HTTPException 404 ''Document not found'')), w)
         | Some doc \<Rightarrow>
             if \<not> truthy (doc_encrypted_path doc)
             then (Inl (Inl (HTTPException 404 ''Encrypted document not found'')), w)
             else
               (case generate_decrypted_pdf L B (files w)
                       (case doc_encrypted_path doc of Some p \<Rightarrow> p | None \<Rightarrow> [])
                       (doc_detected_pii doc) passkey of
                  (Inl e, fs') \<Rightarrow> (Inl (Inr e), w\<lparr>files := fs'\<rparr>)
                | (Inr decrypted_path, fs') \<Rightarrow>
                    (Inr \<lparr>fr_path = decrypted_path,
                          fr_filename = ''decrypted_'' @ doc_filename doc,
                          fr_media_type = ''application/pdf''\<rparr>,
                     w\<lparr>files := fs',
                       documents_store := (documents_store w)(document_id \<mapsto>
                         doc\<lparr>doc_status := ''decrypted''\<rparr>)\<rparr>)))
      of (Inl e, w') \<Rightarrow> (Inl (decrypt_document_handler B e), w')
       | (Inr response, w') \<Rightarrow> (Inr response, w'))"

section \<open>Contracts of the libraries\<close>

text \<open>
  What the theorems below ask of the libraries: base64 decodes what it encoded, the codec
  decodes what it encoded, and Fernet decrypts under the key it encrypted with.
\<close>

definition lib_ok :: "'r crypto_lib \<Rightarrow> bool" where
  "lib_ok L \<longleftrightarrow>
     (\<forall>b. b64decode L (b64encode L b) = Some b) \<and>
     (\<forall>s. bytes_decode L (str_encode L s) = Some s) \<and>
     (\<forall>k r m. fernet_decrypt L k (fernet_encrypt L k r m) = Some m)"


section \<open>HMAC and PBKDF2\<close>

text \<open>
  How \<open>PBKDF2HMAC\<close> computes, for any hash function \<open>H\<close> with 64-byte blocks (SHA-256 is
  one): HMAC as in RFC 2104, PBKDF2 as in RFC 8018, section 5.2. The hash stays a
  parameter. HMAC first brings its key to the block size: a key longer than a block is
  hashed, and the key is then filled with zero bytes up to 64.
\<close>

definition xor_bytes :: "bytes \<Rightarrow> bytes \<Rightarrow> bytes" where
  "xor_bytes a b = map (\<lambda>(x, y). x XOR y) (zip a b)"

definition hmac_key_block :: "(bytes \<Rightarrow> bytes) \<Rightarrow> bytes \<Rightarrow> bytes" where
  "hmac_key_block H K =
     (let K' = (if 64 < length K then H K else K) in K' @ replicate (64 - length K') 0)"

definition hmac :: "(bytes \<Rightarrow> bytes) \<Rightarrow> bytes \<Rightarrow> bytes \<Rightarrow> bytes" where
  "hmac H K m =
     (let K0 = hmac_key_block H K
      in H (xor_bytes K0 (replicate 64 0x5C) @ H (xor_bytes K0 (replicate 64 0x36) @ m)))"

definition int32_be :: "nat \<Rightarrow> bytes" where
  "int32_be i = [of_nat (i div 16777216), of_nat (i div 65536), of_nat (i div 256), of_nat i]"

text \<open>\<open>pbkdf2_block H P S c i\<close> is \<open>T_i = U_1 xor ... xor U_c\<close> with
  \<open>U_1 = HMAC(P, S || INT(i))\<close> and \<open>U_j = HMAC(P, U_(j-1))\<close>.\<close>

definition pbkdf2_block :: "(bytes \<Rightarrow> bytes) \<Rightarrow> bytes \<Rightarrow> bytes \<Rightarrow> nat \<Rightarrow> nat \<Rightarrow> bytes" where
  "pbkdf2_block H P S c i =
     (let U1 = hmac H P (S @ int32_be i)
      in fst (((\<lambda>(T, U). (let U' = hmac H P U in (xor_bytes T U', U'))) ^^ (c - 1)) (U1, U1)))"

definition pbkdf2_hmac ::
  "(bytes \<Rightarrow> bytes) \<Rightarrow> nat \<Rightarrow> bytes \<Rightarrow> bytes \<Rightarrow> nat \<Rightarrow> nat \<Rightarrow> bytes" where
  "pbkdf2_hmac H hLen P S c dkLen =
     take dkLen (concat (map (pbkdf2_block H P S c) [1..<Suc ((dkLen + hLen - 1) div hLen)]))"

section \<open>A library to run the model on\<close>

text \<open>
  A small instance of the library record, on which the model evaluates: the codec is
  Latin-1, base64 is the identity on code points, the key derivation is PBKDF2-HMAC as
  above over a toy hash (the first 32 bytes of the zero-filled input) with a single
  iteration, and a Fernet token is the key in a self-delimiting header, a 16-byte IV and
  the plaintext. It meets both contracts above.
\<close>

definition demo_hash :: "bytes \<Rightarrow> bytes" where
  "demo_hash x = take 32 (x @ replicate 32 0)"

definition demo_pbkdf2 :: "nat \<Rightarrow> bytes \<Rightarrow> nat \<Rightarrow> bytes \<Rightarrow> bytes" where
  "demo_pbkdf2 len salt iterations key_material = pbkdf2_hmac demo_hash 32 key_material salt 1 len"

definition demo_fernet_header :: "bytes \<Rightarrow> bytes" where
  "demo_fernet_header k = replicate (length k) 1 @ [0] @ k"

definition demo_lib :: "bytes crypto_lib" where
  "demo_lib =
     \<lparr>str_encode = map of_char,
      bytes_decode = (\<lambda>b. Some (map (\<lambda>x. char_of (unat x)) b)),
      b64encode = map (\<lambda>x. char_of (unat x)),
      b64decode = (\<lambda>s. Some (map of_char s)),
      urlsafe_b64encode = id,
      pbkdf2_hmac_sha256 = demo_pbkdf2,
      fernet_encrypt = (\<lambda>k r m. demo_fernet_header k @ take 16 (r @ replicate 16 0) @ m),
      fernet_decrypt = (\<lambda>k t.
         if prefix (demo_fernet_header k) t \<and> length (demo_fernet_header k) + 16 \<le> length t
         then Some (drop (length (demo_fernet_header k) + 16) t) else None)\<rparr>"

text \<open>The document side of the instance: a file is its text, a document has one page and
  a search finds nothing; \<open>str(HTTPException(c, d))\<close> is \<open>"c: d"\<close>.\<close>

definition demo_with_suffix :: "string \<Rightarrow> string \<Rightarrow> string" where
  "demo_with_suffix p s =
     (if CHR ''.'' \<in> set p then rev (tl (dropWhile (\<lambda>c. c \<noteq> CHR ''.'') (rev p))) @ s else p @ s)"

definition demo_backend :: "(string, nat) doc_lib" where
  "demo_backend =
     \<lparr>with_suffix = demo_with_suffix,
      path_stem = id,
      path_sibling = (\<lambda>p n. n),
      json_dumps = (\<lambda>m. ''{}''),
      json_loads = (\<lambda>s. Inl ''Expecting value''),
      fitz_open = (\<lambda>c. case c of None \<Rightarrow> Inl ''no such file'' | Some s \<Rightarrow> Inr s),
      page_count = (\<lambda>p. 1),
      search_for = (\<lambda>p n s. []),
      add_redact_annot = (\<lambda>p n r t. p),
      apply_redactions = (\<lambda>p n. p),
      pdf_bytes = id,
      str_http_exception = (\<lambda>code detail. str_nat code @ '': '' @ detail)\<rparr>"

text \<open>A detected field, a store with one analysed document, a store whose document was
  encrypted but whose metadata file is gone, and a metadata record whose only token is
  not a Fernet token.\<close>

definition ssn_field :: pii_field where
  "ssn_field =
     \<lparr>pf_type = ''Social Security Number'', pf_value = ''***-**-6789'',
      pf_original_value = ''123-45-6789'', pf_confidence = 19 / 20,
      pf_location = \<lparr>loc_page = 1, loc_bbox = [0, 0, 0, 0], loc_start = 10, loc_end = 21\<rparr>,
      pf_encrypted = False, pf_detection_method = ''regex_pattern''\<rparr>"

definition analyzed_doc :: doc_record where
  "analyzed_doc =
     \<lparr>doc_id = ''1'', doc_filename = ''a.pdf'', doc_original_path = ''uploads/a.pdf'',
      doc_status = ''analyzed'', doc_detected_pii = Some [ssn_field],
      doc_encrypted_path = None\<rparr>"

definition analyzed_world :: world where
  "analyzed_world =
     \<lparr>documents_store = [''1'' \<mapsto> analyzed_doc],
      files = [''uploads/a.pdf'' \<mapsto> ''%PDF-1.7'']\<rparr>"

definition encrypted_doc :: doc_record where
  "encrypted_doc =
     \<lparr>doc_id = ''1'', doc_filename = ''a.pdf'', doc_original_path = ''uploads/a.pdf'',
      doc_status = ''encrypted'', doc_detected_pii = Some [ssn_field],
      doc_encrypted_path = Some ''uploads/encrypted_a.pdf''\<rparr>"

definition no_sidecar_world :: world where
  "no_sidecar_world =
     \<lparr>documents_store = [''1'' \<mapsto> encrypted_doc],
      files = [''uploads/a.pdf'' \<mapsto> ''%PDF-1.7'', ''uploads/encrypted_a.pdf'' \<mapsto> ''%PDF-1.7'']\<rparr>"

definition tampered_metadata :: encryption_metadata where
  "tampered_metadata =
     \<lparr>md_encrypted_fields = [],
      md_field_mapping =
        [(''ENCRYPTED_FIELD_001'',
          \<lparr>fd_original_value = [], fd_encrypted_value = [],
           fd_type = ''Social Security Number'',
           fd_location = \<lparr>loc_page = 1, loc_bbox = [0, 0, 0, 0], loc_start = 10, loc_end = 21\<rparr>\<rparr>)],
      md_salt = ''c2FsdA=='',
      md_encryption_method = ''AES-256-Fernet''\<rparr>"

section \<open>What the loops compute\<close>

text \<open>The values the \<open>i\<close>-th round of the encryption loop builds, named for the
  statements below: the placeholder id, the base64 text of the token, the record appended
  to \<open>encrypted_fields\<close> and the item stored in \<open>field_mapping\<close>.\<close>

definition placeholder_of :: "nat \<Rightarrow> string" where
  "placeholder_of i = ''ENCRYPTED_FIELD_'' @ fmt_03d (i + 1)"

definition token_of :: "'r crypto_lib \<Rightarrow> bytes \<Rightarrow> (nat \<Rightarrow> 'r) \<Rightarrow> nat \<Rightarrow> pii_field \<Rightarrow> string" where
  "token_of L key rnd i field =
     b64encode L (fernet_encrypt L key (rnd i) (str_encode L (pf_original_value field)))"

definition encrypted_field_of ::
  "'r crypto_lib \<Rightarrow> bytes \<Rightarrow> (nat \<Rightarrow> 'r) \<Rightarrow> nat \<times> pii_field \<Rightarrow> encrypted_field" where
  "encrypted_field_of L key rnd p =
     (case p of (i, field) \<Rightarrow>
        \<lparr>pf_type = pf_type field, pf_value = pf_value field,
         pf_original_value = pf_original_value field,
         pf_confidence = pf_confidence field, pf_location = pf_location field,
         pf_encrypted = True, pf_detection_method = pf_detection_method field,
         ef_placeholder_id = placeholder_of i,
         ef_encrypted_value = token_of L key rnd i field\<rparr>)"

definition mapping_item_of ::
  "'r crypto_lib \<Rightarrow> bytes \<Rightarrow> (nat \<Rightarrow> 'r) \<Rightarrow> nat \<times> pii_field \<Rightarrow> string \<times> field_data" where
  "mapping_item_of L key rnd p =
     (case p of (i, field) \<Rightarrow>
        (placeholder_of i,
         \<lparr>fd_original_value = pf_original_value field,
          fd_encrypted_value = token_of L key rnd i field,
          fd_type = pf_type field,
          fd_location = pf_location field\<rparr>))"

text \<open>What the decryption loop has stored when every item decrypted.\<close>

definition decrypted_items ::
  "'r crypto_lib \<Rightarrow> bytes \<Rightarrow> (string \<times> field_data) list \<Rightarrow> (string \<times> string) list \<Rightarrow> (string \<times> string) list" where
  "decrypted_items L key fm acc =
     foldl (\<lambda>m (pid, fd). AList.update pid (case decrypt_value L key fd of Some v \<Rightarrow> v | None \<Rightarrow> []) m) acc fm"

text \<open>Reading a formatted number back.\<close>

definition digit_val :: "char \<Rightarrow> nat" where
  "digit_val c = of_char c - 48"

definition nat_of_str :: "string \<Rightarrow> nat" where
  "nat_of_str s = foldl (\<lambda>a c. 10 * a + digit_val c) 0 s"

subsection \<open>Placeholder ids are injective\<close>

lemma digit_val_digit_char: "d < 10 \<Longrightarrow> digit_val (digit_char d) = d"
proof -
  assume "d < 10"
  then have "d \<in> {0, 1, 2, 3, 4, 5, 6, 7, 8, 9}"
    by auto
  then show ?thesis
    by (auto simp add: digit_val_def digit_char_def)
qed

lemma nat_of_str_snoc: "nat_of_str (s @ [c]) = 10 * nat_of_str s + digit_val c"
  by (simp add: nat_of_str_def)

lemma nat_of_str_str_nat: "nat_of_str (str_nat n) = n"
proof (induction n rule: str_nat.induct)
  case (1 n)
  show ?case
  proof (cases "n < 10")
    case True
    then show ?thesis
      by (subst str_nat.simps) (simp add: nat_of_str_def digit_val_digit_char)
  next
    case False
    then have "nat_of_str (str_nat (n div 10)) = n div 10"
      using "1.IH" by simp
    with False show ?thesis
      by (subst str_nat.simps) (simp add: nat_of_str_snoc digit_val_digit_char)
  qed
qed

lemma nat_of_str_zeros: "nat_of_str (replicate k (CHR ''0'') @ s) = nat_of_str s"
proof -
  have "foldl (\<lambda>a c. 10 * a + digit_val c) 0 (replicate k (CHR ''0'')) = 0"
    by (induction k) (simp_all add: digit_val_def)
  then show ?thesis
    by (simp add: nat_of_str_def)
qed

lemma nat_of_str_fmt_03d: "nat_of_str (fmt_03d n) = n"
  by (simp add: fmt_03d_def nat_of_str_zeros nat_of_str_str_nat)

lemma fmt_03d_inj: "fmt_03d m = fmt_03d n \<longleftrightarrow> m = n"
  by (metis nat_of_str_fmt_03d)

lemma placeholder_of_inj: "placeholder_of i = placeholder_of j \<longleftrightarrow> i = j"
  by (simp add: placeholder_of_def fmt_03d_inj)

lemma placeholder_of_0: "placeholder_of 0 = ''ENCRYPTED_FIELD_001''"
  by code_simp

lemma placeholder_of_1: "placeholder_of 1 = ''ENCRYPTED_FIELD_002''"
  by code_simp

lemma str_nat_400: "str_nat 400 = ''400''"
  by code_simp

subsection \<open>The encryption loop\<close>

lemma update_fresh: "k \<notin> fst ` set al \<Longrightarrow> AList.update k v al = al @ [(k, v)]"
  by (induction al) auto

lemma encrypt_loop_eq:
  "\<forall>j\<ge>i. placeholder_of j \<notin> fst ` set fm \<Longrightarrow>
   encrypt_loop L key rnd i fs (efs, fm) =
     (efs @ map (encrypted_field_of L key rnd) (enumerate i fs),
      fm @ map (mapping_item_of L key rnd) (enumerate i fs))"
proof (induction fs arbitrary: i efs fm)
  case Nil
  then show ?case by simp
next
  case (Cons f fs)
  let ?item = "mapping_item_of L key rnd (i, f)"
  have fresh: "placeholder_of i \<notin> fst ` set fm"
    using Cons.prems by blast
  have next_fresh: "\<forall>j\<ge>Suc i. placeholder_of j \<notin> fst ` set (fm @ [?item])"
    using Cons.prems by (auto simp: mapping_item_of_def placeholder_of_inj)
  have "encrypt_loop L key rnd i (f # fs) (efs, fm) =
        encrypt_loop L key rnd (Suc i) fs (efs @ [encrypted_field_of L key rnd (i, f)], fm @ [?item])"
    using fresh
    by (simp add: Let_def encrypted_field_of_def mapping_item_of_def token_of_def
        placeholder_of_def update_fresh)
  also have "\<dots> = ((efs @ [encrypted_field_of L key rnd (i, f)]) @ map (encrypted_field_of L key rnd) (enumerate (Suc i) fs),
      (fm @ [?item]) @ map (mapping_item_of L key rnd) (enumerate (Suc i) fs))"
    by (rule Cons.IH [OF next_fresh])
  finally show ?case by simp
qed

lemma encrypt_pii_fields_eq:
  "encrypt_pii_fields L rnd pii_fields passkey =
     \<lparr>md_encrypted_fields =
        map (encrypted_field_of L (fst (generate_key_from_passkey L passkey None)) rnd)
          (enumerate 0 pii_fields),
      md_field_mapping =
        map (mapping_item_of L (fst (generate_key_from_passkey L passkey None)) rnd)
          (enumerate 0 pii_fields),
      md_salt = b64encode L (urlsafe_b64encode L (bytes_of ''piiguardian_salt_2024'')),
      md_encryption_method = ''AES-256-Fernet''\<rparr>"
  by (simp add: encrypt_pii_fields_def encrypt_loop_eq generate_key_from_passkey_def Let_def)

subsection \<open>The decryption loop and its handlers\<close>

lemma decrypt_loop_eq:
  "decrypt_loop L key fm acc =
     (if list_all (\<lambda>(pid, fd). decrypt_value L key fd \<noteq> None) fm
      then Inr (decrypted_items L key fm acc)
      else Inl (ValueError ''Invalid passkey or corrupted data''))"
  by (induction fm arbitrary: acc) (auto simp: decrypted_items_def split: option.splits)

lemma decrypted_items_keys:
  "fst ` set (decrypted_items L key fm acc) = fst ` set acc \<union> fst ` set fm"
proof (induction fm arbitrary: acc)
  case Nil
  then show ?case by (simp add: decrypted_items_def)
next
  case (Cons p fm)
  obtain pid fd where p: "p = (pid, fd)" by (cases p)
  define v where "v = (case decrypt_value L key fd of Some v \<Rightarrow> v | None \<Rightarrow> [])"
  have "decrypted_items L key (p # fm) acc = decrypted_items L key fm (AList.update pid v acc)"
    by (simp add: decrypted_items_def p v_def)
  then have "fst ` set (decrypted_items L key (p # fm) acc) =
             fst ` set (AList.update pid v acc) \<union> fst ` set fm"
    by (simp add: Cons.IH)
  also have "\<dots> = ({pid} \<union> fst ` set acc) \<union> fst ` set fm"
    by (simp only: AList.dom_update)
  finally show ?case
    by (simp add: p Un_ac insert_commute)
qed

lemma handler_invalid:
  "decrypt_handler (ValueError ''Invalid passkey or corrupted data'') = ValueError ''Invalid passkey provided''"
  by (simp add: decrypt_handler_def str_contains_def sublist_code)

lemma decrypt_handler_padding:
  "decrypt_handler (ValueError ''Incorrect padding'') =
     Exception ''Failed to decrypt PII fields: Incorrect padding''"
  by (simp add: decrypt_handler_def str_contains_def sublist_code prefix_code)

lemma decrypt_pii_fields_eq:
  "decrypt_pii_fields L M passkey =
     (case b64decode L (md_salt M) of
        None \<Rightarrow> Inl (Exception ''Failed to decrypt PII fields: Incorrect padding'')
      | Some salt \<Rightarrow>
          if list_all (\<lambda>(pid, fd). decrypt_value L (fst (generate_key_from_passkey L passkey (Some salt))) fd \<noteq> None)
               (md_field_mapping M)
          then Inr (decrypted_items L (fst (generate_key_from_passkey L passkey (Some salt))) (md_field_mapping M) [])
          else Inl (ValueError ''Invalid passkey provided''))"
  by (simp add: decrypt_pii_fields_def decrypt_loop_eq handler_invalid decrypt_handler_padding
      split_beta split: option.splits)

lemma decrypt_value_item:
  "lib_ok L \<Longrightarrow> decrypt_value L key (snd (mapping_item_of L key rnd (i, f))) = Some (pf_original_value f)"
  by (simp add: lib_ok_def decrypt_value_def mapping_item_of_def token_of_def)


lemma decrypted_items_fresh:
  "lib_ok L \<Longrightarrow> \<forall>j\<ge>i. placeholder_of j \<notin> fst ` set acc \<Longrightarrow>
   decrypted_items L key (map (mapping_item_of L key rnd) (enumerate i fs)) acc =
     acc @ map (\<lambda>(j, f). (placeholder_of j, pf_original_value f)) (enumerate i fs)"
proof (induction fs arbitrary: i acc)
  case Nil
  then show ?case by (simp add: decrypted_items_def)
next
  case (Cons f fs)
  let ?acc = "acc @ [(placeholder_of i, pf_original_value f)]"
  have fresh: "placeholder_of i \<notin> fst ` set acc"
    using Cons.prems by blast
  have dv: "decrypt_value L key (snd (mapping_item_of L key rnd (i, f))) = Some (pf_original_value f)"
    using Cons.prems(1) by (rule decrypt_value_item)
  have fst_item: "fst (mapping_item_of L key rnd (i, f)) = placeholder_of i"
    by (simp add: mapping_item_of_def)
  have step: "decrypted_items L key (map (mapping_item_of L key rnd) (enumerate i (f # fs))) acc =
        decrypted_items L key (map (mapping_item_of L key rnd) (enumerate (Suc i) fs)) ?acc"
    using dv fst_item fresh by (simp add: decrypted_items_def split_beta update_fresh)
  have "\<forall>j\<ge>Suc i. placeholder_of j \<notin> fst ` set ?acc"
    using Cons.prems(2) by (auto simp: placeholder_of_inj)
  from Cons.IH [OF Cons.prems(1) this] step show ?case by simp
qed

lemma all_items_decrypt:
  "lib_ok L \<Longrightarrow>
   list_all (\<lambda>(pid, fd). decrypt_value L key fd \<noteq> None) (map (mapping_item_of L key rnd) (enumerate i fs))"
  by (induction fs arbitrary: i) (simp_all add: split_beta decrypt_value_item)

lemma stored_salt:
  "lib_ok L \<Longrightarrow> b64decode L (md_salt (encrypt_pii_fields L rnd fs passkey)) =
     Some (urlsafe_b64encode L (bytes_of ''piiguardian_salt_2024''))"
  by (simp add: encrypt_pii_fields_eq lib_ok_def)

lemma key_of_stored_salt:
  "fst (generate_key_from_passkey L passkey (Some (urlsafe_b64encode L (bytes_of ''piiguardian_salt_2024'')))) =
   fst (generate_key_from_passkey L passkey None)"
  by (simp add: generate_key_from_passkey_def)

lemma decrypt_encrypt_eq:
  assumes "lib_ok L"
  shows "decrypt_pii_fields L (encrypt_pii_fields L rnd fs passkey) passkey =
           Inr (map (\<lambda>(i, f). (placeholder_of i, pf_original_value f)) (enumerate 0 fs))"
proof -
  let ?key = "fst (generate_key_from_passkey L passkey None)"
  have fm: "md_field_mapping (encrypt_pii_fields L rnd fs passkey) =
              map (mapping_item_of L ?key rnd) (enumerate 0 fs)"
    by (simp add: encrypt_pii_fields_eq)
  have "list_all (\<lambda>(pid, fd). decrypt_value L ?key fd \<noteq> None)
          (map (mapping_item_of L ?key rnd) (enumerate 0 fs))"
    using assms by (rule all_items_decrypt)
  then show ?thesis
    using assms
    by (simp add: decrypt_pii_fields_eq stored_salt key_of_stored_salt fm decrypted_items_fresh)
qed


lemma same_key_same_result:
  assumes "\<And>salt. fst (generate_key_from_passkey L passkey' (Some salt)) =
                    fst (generate_key_from_passkey L passkey (Some salt))"
  shows "decrypt_pii_fields L M passkey' = decrypt_pii_fields L M passkey"
  by (simp add: decrypt_pii_fields_eq assms split: option.splits)

subsection \<open>A trailing zero byte does not change an HMAC key\<close>

text \<open>Whatever the hash and the iteration count: a passkey shorter than a block and the
  same passkey followed by a zero byte derive the same key.\<close>

lemma hmac_key_block_zero: "length K < 64 \<Longrightarrow> hmac_key_block H (K @ [0]) = hmac_key_block H K"
proof -
  assume "length K < 64"
  then obtain n where n: "64 - length K = Suc n" 
    by (metis Suc_diff_Suc)
  then have "63 - length K = n" by simp
  with n show ?thesis
    using \<open>length K < 64\<close> by (simp add: hmac_key_block_def)
qed

lemma hmac_zero: "length K < 64 \<Longrightarrow> hmac H (K @ [0]) = hmac H K"
  by (rule ext) (simp add: hmac_def hmac_key_block_zero)

lemma pbkdf2_hmac_zero:
  "length P < 64 \<Longrightarrow> pbkdf2_hmac H hLen (P @ [0]) S c dkLen = pbkdf2_hmac H hLen P S c dkLen"
proof -
  assume "length P < 64"
  then have "pbkdf2_block H (P @ [0]) S c = pbkdf2_block H P S c"
    by (intro ext) (simp add: pbkdf2_block_def hmac_zero)
  then show ?thesis
    by (simp only: pbkdf2_hmac_def)
qed

text \<open>So with any library that derives the key by PBKDF2-HMAC (over whatever hash, with
  the source's 100000 iterations) and encodes the NUL character as a zero byte, as UTF-8
  does, a passkey and the same passkey followed by NUL decrypt alike.\<close>

lemma nul_padded_passkey_same_result:
  assumes "pbkdf2_hmac_sha256 L = (\<lambda>len salt c km. pbkdf2_hmac H 32 km salt c len)"
    and "str_encode L (passkey @ [CHR 0x00]) = str_encode L passkey @ [0]"
    and "length (str_encode L passkey) < 64"
  shows "decrypt_pii_fields L M (passkey @ [CHR 0x00]) = decrypt_pii_fields L M passkey"
proof (rule same_key_same_result)
  fix salt
  show "fst (generate_key_from_passkey L (passkey @ [CHR 0x00]) (Some salt)) =
        fst (generate_key_from_passkey L passkey (Some salt))"
    using assms by (simp add: generate_key_from_passkey_def Let_def pbkdf2_hmac_zero)
qed

subsection \<open>The instance meets the contracts\<close>

lemma byte_char [simp]: "of_char (char_of (unat (b :: byte))) = b"
proof -
  have lt: "unat b < 256"
    using unsigned_less [of b, where ?'a = nat] by simp
  have "(of_char (char_of (unat b)) :: byte) = of_nat (of_char (char_of (unat b)))"
    by (simp only: of_nat_of_char)
  also have "\<dots> = of_nat (unat b mod 256)"
    by (simp only: of_char_of)
  also have "\<dots> = b"
    using lt by simp
  finally show ?thesis .
qed

lemma char_byte [simp]: "char_of (unat (of_char c :: byte)) = c"
proof -
  have "unat (of_char c :: byte) = unat (of_nat (of_char c) :: byte)"
    by (simp only: of_nat_of_char)
  also have "\<dots> = of_char c mod 256"
    by (simp add: unat_of_nat)
  finally show ?thesis
    by (simp add: char_of_mod_256)
qed



lemma demo_lib_ok: "lib_ok demo_lib"
  by (auto simp add: lib_ok_def demo_lib_def comp_def)






subsection \<open>The endpoints on a weak passkey, and the metadata file\<close>

text \<open>\<open>validate_passkey_strength\<close> is the test that \<open>encrypt_document\<close> writes out itself.\<close>

lemma validate_passkey_strength_iff: "validate_passkey_strength passkey \<longleftrightarrow> 8 \<le> length passkey"
  by (simp add: validate_passkey_strength_def)

text \<open>Whatever the document: with a passkey of fewer than 8 characters the endpoint
  raises and leaves the store and the files as they were.\<close>

lemma weak_passkey_no_effect:
  "length passkey < 8 \<Longrightarrow>
   isl (fst (encrypt_document L B rnd w document_id passkey)) \<and>
   snd (encrypt_document L B rnd w document_id passkey) = w"
  by (simp add: encrypt_document_def split: option.splits)

text \<open>When \<open>generate_encrypted_pdf\<close> returns, the file beside the document holds the
  metadata as \<open>encrypt_pii_fields\<close> returned it.\<close>

lemma sidecar_is_metadata:
  "generate_encrypted_pdf L B rnd fs original_path pii_fields passkey = (Inr encrypted_path, fs') \<Longrightarrow>
   fs' (with_suffix B encrypted_path ''.json'') =
     Some (json_dumps B (encrypt_pii_fields L rnd pii_fields passkey))"
  by (auto simp: generate_encrypted_pdf_def Let_def split: sum.splits)

section \<open>The claims\<close>

text \<open>
  C1. Two encryptions should carry different salts, and a missing salt should be drawn at
  random. The code does neither: with \<open>salt = None\<close>, \<open>generate_key_from_passkey\<close> returns
  the url-safe base64 text of the constant \<open>piiguardian_salt_2024\<close>, whatever the passkey,
  and the salt of the metadata is the same for every field list, passkey and draw of the
  cipher's randomness.
\<close>

theorem salt_is_fixed_constant:
  "snd (generate_key_from_passkey L passkey None) =
     urlsafe_b64encode L (bytes_of ''piiguardian_salt_2024'') \<and>
   md_salt (encrypt_pii_fields L rnd pii_fields passkey) =
     md_salt (encrypt_pii_fields L rnd' pii_fields' passkey')"
  by (simp add: encrypt_pii_fields_eq generate_key_from_passkey_def Let_def)

text \<open>
  C2. The metadata should hold no original value in the clear. It does: every item of
  \<open>field_mapping\<close> stores \<open>original_value\<close> beside the ciphertext, and every record of
  \<open>encrypted_fields\<close> carries it through; read in order, they give back the input's
  original values.
\<close>

theorem metadata_keeps_plaintext:
  "map (\<lambda>(pid, fd). fd_original_value fd) (md_field_mapping (encrypt_pii_fields L rnd pii_fields passkey)) =
     map pf_original_value pii_fields \<and>
   map pf_original_value (md_encrypted_fields (encrypt_pii_fields L rnd pii_fields passkey)) =
     map pf_original_value pii_fields"
proof -
  have "map ((\<lambda>(pid, fd). fd_original_value fd) \<circ> mapping_item_of L k rnd) (enumerate i fs) = map pf_original_value fs"
    for k i and fs :: "pii_field list"
    by (induction fs arbitrary: i) (simp_all add: mapping_item_of_def)
  moreover have "map (pf_original_value \<circ> encrypted_field_of L k rnd) (enumerate i fs) = map pf_original_value fs"
    for k i and fs :: "pii_field list"
    by (induction fs arbitrary: i) (simp_all add: encrypted_field_of_def)
  ultimately show ?thesis
    by (simp add: encrypt_pii_fields_eq)
qed

text \<open>
  C3. Round trip: decrypting what \<open>encrypt_pii_fields\<close> returned, with the same passkey,
  returns the mapping whose keys are the placeholder ids assigned in input order and
  whose values are the original values of the fields, for every field list and every
  passkey (so also for every passkey of 8 characters or more), given the library
  contracts.
\<close>

theorem round_trip_original_values:
  "lib_ok L \<Longrightarrow>
   decrypt_pii_fields L (encrypt_pii_fields L rnd pii_fields passkey) passkey =
     Inr (map (\<lambda>(i, field). (placeholder_of i, pf_original_value field)) (enumerate 0 pii_fields))"
  by (rule decrypt_encrypt_eq)

theorem round_trip_original_values_witness:
  "lib_ok demo_lib \<and>
   decrypt_pii_fields demo_lib
     (encrypt_pii_fields demo_lib (\<lambda>i. []) [ssn_field, ssn_field] ''correct-horse'') ''correct-horse'' =
     Inr [(''ENCRYPTED_FIELD_001'', ''123-45-6789''), (''ENCRYPTED_FIELD_002'', ''123-45-6789'')]"
  using round_trip_original_values [OF demo_lib_ok, of "\<lambda>i. []" "[ssn_field, ssn_field]" "''correct-horse''"]
  by (simp add: demo_lib_ok placeholder_of_0 placeholder_of_1 [simplified] ssn_field_def)




text \<open>
  C5. The keys of \<open>field_mapping\<close> are pairwise distinct, and so are the placeholder ids of
  the records of \<open>encrypted_fields\<close>, for every field list (duplicates of
  \<open>original_value\<close> included); with as many items as fields, each id is paired with
  exactly one field.
\<close>

theorem placeholder_ids_distinct:
  "distinct (map fst (md_field_mapping (encrypt_pii_fields L rnd pii_fields passkey))) \<and>
   distinct (map ef_placeholder_id (md_encrypted_fields (encrypt_pii_fields L rnd pii_fields passkey))) \<and>
   length (md_field_mapping (encrypt_pii_fields L rnd pii_fields passkey)) = length pii_fields"
proof -
  have inj: "inj placeholder_of"
    by (simp add: inj_def placeholder_of_inj)
  have "map (fst \<circ> mapping_item_of L k rnd) (enumerate i fs) = map placeholder_of [i..<i + length fs]"
    for k i and fs :: "pii_field list"
    by (induction fs arbitrary: i) (simp_all add: mapping_item_of_def upt_rec)
  moreover have "map (ef_placeholder_id \<circ> encrypted_field_of L k rnd) (enumerate i fs) = map placeholder_of [i..<i + length fs]"
    for k i and fs :: "pii_field list"
    by (induction fs arbitrary: i) (simp_all add: encrypted_field_of_def upt_rec)
  ultimately show ?thesis
    using inj by (simp add: encrypt_pii_fields_eq distinct_map inj_on_def inj_def)
qed

text \<open>
  C6. \<open>field_mapping\<close> has as many items as the input has fields, and its \<open>i\<close>-th item is
  built from the \<open>i\<close>-th field: the id of index \<open>i\<close>, and the field's original value, type
  and location beside the token of its original value.
\<close>

theorem field_mapping_in_input_order:
  "length (md_field_mapping (encrypt_pii_fields L rnd pii_fields passkey)) = length pii_fields \<and>
   md_field_mapping (encrypt_pii_fields L rnd pii_fields passkey) =
     map (mapping_item_of L (fst (generate_key_from_passkey L passkey None)) rnd)
       (enumerate 0 pii_fields)"
  by (simp add: encrypt_pii_fields_eq)

text \<open>
  C7. With no metadata file beside the encrypted document, the restore should fail with a
  not-found error. The code raises \<open>FileNotFoundError\<close>, catches it in its own
  \<open>except Exception\<close> and raises a plain \<open>Exception\<close>, which the endpoint turns into
  status 500, whatever the passkey; the store and the files stay as they were.
\<close>

theorem missing_metadata_is_http_500:
  assumes "documents_store w document_id = Some doc"
    and "doc_encrypted_path doc = Some p" and "p \<noteq> []"
    and "files w (with_suffix B p ''.json'') = None"
  shows "decrypt_document L B w document_id passkey =
           (Inl (HTTPException 500
              ''Decryption failed: Failed to generate decrypted PDF: Encryption metadata not found''), w)"
  using assms
  by (simp add: decrypt_document_def truthy_def generate_decrypted_pdf_def
      decrypt_document_handler_def str_raised_def)

theorem missing_metadata_is_http_500_witness:
  "documents_store no_sidecar_world ''1'' = Some encrypted_doc \<and>
   doc_encrypted_path encrypted_doc = Some ''uploads/encrypted_a.pdf'' \<and>
   ''uploads/encrypted_a.pdf'' \<noteq> [] \<and>
   files no_sidecar_world (with_suffix demo_backend ''uploads/encrypted_a.pdf'' ''.json'') = None \<and>
   decrypt_document demo_lib demo_backend no_sidecar_world ''1'' ''correct-horse'' =
     (Inl (HTTPException 500
        ''Decryption failed: Failed to generate decrypted PDF: Encryption metadata not found''),
      no_sidecar_world)"
proof -
  have a: "documents_store no_sidecar_world ''1'' = Some encrypted_doc"
    by (simp add: no_sidecar_world_def)
  have b: "doc_encrypted_path encrypted_doc = Some ''uploads/encrypted_a.pdf''"
    by (simp add: encrypted_doc_def)
  have c: "''uploads/encrypted_a.pdf'' \<noteq> []"
    by simp
  have d: "files no_sidecar_world (with_suffix demo_backend ''uploads/encrypted_a.pdf'' ''.json'') = None"
    by (simp add: no_sidecar_world_def demo_backend_def demo_with_suffix_def)
  show ?thesis
    using missing_metadata_is_http_500 [OF a b c d, of demo_lib "''correct-horse''"] a b d by simp
qed

text \<open>
  C8. With a passkey of fewer than 8 characters the endpoint raises before any key is
  derived and writes nothing. What it raises in the end is not the validation error,
  though: the \<open>HTTPException\<close> of status 400 is caught by the endpoint's own
  \<open>except Exception\<close> and raised again with status 500.
\<close>

theorem weak_passkey_is_http_500:
  assumes "documents_store w document_id = Some doc"
    and "truthy (doc_detected_pii doc)" and "length passkey < 8"
  shows "encrypt_document L B rnd w document_id passkey =
           (Inl (HTTPException 500
              (''Encryption failed: '' @
               str_http_exception B 400 ''Passkey must be at least 8 characters'')), w)"
  using assms by (simp add: encrypt_document_def str_raised_def)

theorem weak_passkey_is_http_500_witness:
  "documents_store analyzed_world ''1'' = Some analyzed_doc \<and>
   truthy (doc_detected_pii analyzed_doc) \<and> length ''abc123'' < 8 \<and>
   encrypt_document demo_lib demo_backend (\<lambda>i. []) analyzed_world ''1'' ''abc123'' =
     (Inl (HTTPException 500
        ''Encryption failed: 400: Passkey must be at least 8 characters''), analyzed_world)"
proof -
  have a: "documents_store analyzed_world ''1'' = Some analyzed_doc"
    by (simp add: analyzed_world_def)
  have b: "truthy (doc_detected_pii analyzed_doc)"
    by (simp add: analyzed_doc_def truthy_def)
  have c: "length ''abc123'' < 8"
    by simp
  show ?thesis
    using weak_passkey_is_http_500 [OF a b c, of demo_lib demo_backend "\<lambda>i. []"] a b
    by (simp add: demo_backend_def str_nat_400)
qed

text \<open>
  C9. All or nothing: once the salt of the metadata decodes, \<open>decrypt_pii_fields\<close> returns
  a mapping exactly when every item of \<open>field_mapping\<close> decrypts, and that mapping has
  every placeholder id as a key; when any item fails it raises the one \<open>ValueError\<close>,
  the same whichever item failed.
\<close>

theorem decrypt_all_or_nothing:
  assumes "b64decode L (md_salt M) = Some salt"
  shows "decrypt_pii_fields L M passkey =
           (if list_all (\<lambda>(pid, fd).
                   decrypt_value L (fst (generate_key_from_passkey L passkey (Some salt))) fd \<noteq> None)
                 (md_field_mapping M)
            then Inr (decrypted_items L (fst (generate_key_from_passkey L passkey (Some salt)))
                        (md_field_mapping M) [])
            else Inl (ValueError ''Invalid passkey provided'')) \<and>
         fst ` set (decrypted_items L (fst (generate_key_from_passkey L passkey (Some salt)))
                      (md_field_mapping M) []) =
           fst ` set (md_field_mapping M)"
  using assms by (simp add: decrypt_pii_fields_eq decrypted_items_keys)

theorem decrypt_all_or_nothing_witness:
  "b64decode demo_lib (md_salt tampered_metadata) = Some (bytes_of ''c2FsdA=='') \<and>
   decrypt_pii_fields demo_lib tampered_metadata ''correct-horse'' =
     Inl (ValueError ''Invalid passkey provided'')"
proof -
  have a: "b64decode demo_lib (md_salt tampered_metadata) = Some (bytes_of ''c2FsdA=='')"
    by (simp add: demo_lib_def tampered_metadata_def bytes_of_def)
  have "decrypt_value demo_lib k (snd (hd (md_field_mapping tampered_metadata))) = None" for k
    by (simp add: decrypt_value_def demo_lib_def tampered_metadata_def demo_fernet_header_def)
  then have "\<not> list_all (\<lambda>(pid, fd). decrypt_value demo_lib k fd \<noteq> None)
                 (md_field_mapping tampered_metadata)" for k
    by (simp add: tampered_metadata_def)
  then show ?thesis
    using decrypt_all_or_nothing [OF a, of "''correct-horse''"] a by simp
qed



end
